theory Spec2Isabelle
  imports Main
begin

section \<open>JavaScript values used by \<^verbatim>\<open>src/app/page.tsx\<close>\<close>

text \<open>
  Strings are lists of code units. \<^typ>\<open>char\<close> has 8 bits, so the model covers the
  strings whose code units lie below U+0100; among those, the code units that
  \<^verbatim>\<open>String.prototype.trim\<close> removes (WhiteSpace and LineTerminator) are TAB, LF, VT,
  FF, CR, SPACE and NBSP.
\<close>

definition isWhiteSpace :: "char \<Rightarrow> bool" where
  "isWhiteSpace c = (of_char c \<in> {9, 10, 11, 12, 13, 32, 160 :: nat})"

text \<open>\<^verbatim>\<open>s.trim()\<close>\<close>

definition trim :: "string \<Rightarrow> string" where
  "trim s = rev (dropWhile isWhiteSpace (rev (dropWhile isWhiteSpace s)))"

text \<open>
  \<^verbatim>\<open>s.split(sep)\<close> for a separator of one code unit: the pieces between the
  separators, empty pieces included; the empty string splits into one empty piece.
\<close>

fun js_split :: "char \<Rightarrow> string \<Rightarrow> string list" where
  "js_split sep [] = [[]]"
| "js_split sep (x # xs) =
     (if x = sep then [] # js_split sep xs
      else (case js_split sep xs of [] \<Rightarrow> [[x]] | t # ts \<Rightarrow> (x # t) # ts))"

text \<open>\<^verbatim>\<open>item.includes(c)\<close> for a pattern of one code unit.\<close>

definition js_includes :: "string \<Rightarrow> char \<Rightarrow> bool" where
  "js_includes item c = (c \<in> set item)"

text \<open>\<^verbatim>\<open>xs[0]\<close>: \<^verbatim>\<open>undefined\<close> (here \<open>None\<close>) on the empty array.\<close>

definition first :: "'a list \<Rightarrow> 'a option" where
  "first xs = (case xs of [] \<Rightarrow> None | x # _ \<Rightarrow> Some x)"

text \<open>
  \<^verbatim>\<open>!v\<close> for a value that is a string, \<^verbatim>\<open>null\<close> or \<^verbatim>\<open>undefined\<close>: the empty
  string is falsy as well.
\<close>

definition falsy :: "string option \<Rightarrow> bool" where
  "falsy v = (case v of None \<Rightarrow> True | Some s \<Rightarrow> s = [])"

text \<open>\<^verbatim>\<open>a || b\<close> on strings.\<close>

definition or_else :: "string \<Rightarrow> string \<Rightarrow> string" where
  "or_else a b = (if a = [] then b else a)"

text \<open>
  The inverse of \<^const>\<open>js_split\<close>, \<^verbatim>\<open>tokens.join(sep)\<close>; the program does not call
  it, the specification of the tokens ("space-delimited") is stated with it.
\<close>

fun js_join :: "char \<Rightarrow> string list \<Rightarrow> string" where
  "js_join sep [] = []"
| "js_join sep [t] = t"
| "js_join sep (t # ts) = t @ sep # js_join sep ts"


section \<open>The chess rules engine (chess.js), a parameter\<close>

text \<open>
  chess.js is not part of the repository. A \<open>Chess\<close> value gives the operations the
  page calls, on the hidden state \<open>'p\<close> of one engine instance: the observers return a
  value, the two mutators (\<^verbatim>\<open>load_pgn\<close>, \<^verbatim>\<open>move\<close>) return their result and the
  state they leave behind. \<open>'m\<close> is the engine's \<^verbatim>\<open>Move\<close> object.
\<close>

datatype Color = White | Black

type_synonym Square = string

text \<open>The argument of \<^verbatim>\<open>move\<close>: \<^verbatim>\<open>ShortMove | string\<close>.\<close>

datatype MoveArg = ShortMove Square Square "string option" | San string

record ('p, 'm) Chess =
  new_Chess :: 'p
  moves :: "'p \<Rightarrow> string list"
  game_over :: "'p \<Rightarrow> bool"
  in_draw :: "'p \<Rightarrow> bool"
  pgn :: "'p \<Rightarrow> string"
  turn :: "'p \<Rightarrow> Color"
  load_pgn :: "string \<Rightarrow> 'p \<Rightarrow> bool \<times> 'p"
  move :: "MoveArg \<Rightarrow> 'p \<Rightarrow> 'm option \<times> 'p"


section \<open>Constants and the two query functions\<close>

datatype Model = gpt_3_5_turbo_instruct | gpt_4 | gpt_3_5_turbo

definition DEFAULT_USER_PROMPT :: string where
  \<open>DEFAULT_USER_PROMPT = ''[Event "FIDE World Cup 2023"]\<newline>[Site "Baku AZE"]\<newline>[Date "2023.08.23"]\<newline>[EventDate "2021.07.30"]\<newline>[Round "8.2"]\<newline>[Result "1/2-1/2"]\<newline>[White "Magnus Carlsen"]\<newline>[Black "Rameshbabu Praggnanandhaa"]\<newline>[ECO "C48"]\<newline>[WhiteElo "2835"]\<newline>[BlackElo "2690"]\<newline>[PlyCount "60"]\<newline>\<newline>''\<close>

definition DEFAULT_SYSTEM_PROMPT :: string where
  "DEFAULT_SYSTEM_PROMPT = ''You are a Chess grandmaster that helps analyze and predict live chess games. Given the algebraic notation for a given match, predict the next move. Do not return anything except for the algebraic notation for your prediction.''"

definition DEFAULT_MODEL :: Model where
  "DEFAULT_MODEL = gpt_3_5_turbo_instruct"

fun useChatCompletions :: "Model \<Rightarrow> bool" where
  "useChatCompletions gpt_4 = True"
| "useChatCompletions gpt_3_5_turbo = True"
| "useChatCompletions gpt_3_5_turbo_instruct = False"

text \<open>
  A request to the LLM service. The sampling parameters are the same five literals in
  both calls.
\<close>

record Sampling =
  temperature :: nat
  max_tokens :: nat
  top_p :: nat
  frequency_penalty :: nat
  presence_penalty :: nat

datatype Request =
    ChatCompletionsCreate Model string string Sampling
  | CompletionsCreate Model string Sampling

fun request_model :: "Request \<Rightarrow> Model" where
  "request_model (ChatCompletionsCreate m system user s) = m"
| "request_model (CompletionsCreate m prompt s) = m"

text \<open>The text of the game sent to the service: the user message, or the prompt.\<close>

fun request_text :: "Request \<Rightarrow> string" where
  "request_text (ChatCompletionsCreate m system user s) = user"
| "request_text (CompletionsCreate m prompt s) = prompt"

text \<open>
  How a promise settles. Both query functions are \<^verbatim>\<open>async\<close> with one \<^verbatim>\<open>await\<close>, so
  each is two functions here: \<open>_begin\<close> runs to the \<^verbatim>\<open>await\<close> and either has returned
  \<^verbatim>\<open>null\<close> already or has sent a request, keeping \<^verbatim>\<open>possibleMoves\<close> for later;
  \<open>_end\<close> runs from the answer of the service to the end. Other events of the page can
  run between the two.
\<close>

datatype 'a Settled = Resolved 'a | Rejected string

datatype Query = Returned_null | Awaiting Request "string list"

definition chatCompletionsQuery_begin ::
  "('p, 'm) Chess \<Rightarrow> Model \<Rightarrow> 'p \<Rightarrow> string \<Rightarrow> string \<Rightarrow> Query" where
  "chatCompletionsQuery_begin E model game system prompt =
     (let possibleMoves = moves E game in
      if game_over E game \<or> in_draw E game \<or> length possibleMoves = 0 then Returned_null
      else Awaiting
        (ChatCompletionsCreate model system (or_else (prompt @ pgn E game) ''1. '')
          \<lparr>temperature = 1, max_tokens = 10, top_p = 1,
           frequency_penalty = 0, presence_penalty = 0\<rparr>)
        possibleMoves)"

text \<open>
  The expression assigned to \<^verbatim>\<open>choice\<close>, the same in both functions:
  \<^verbatim>\<open>response_content.trim().split(' ').filter(item => !item.includes('.'))[0]\<close>.
\<close>

definition choice_of :: "string \<Rightarrow> string option" where
  "choice_of response_content =
     first (filter (\<lambda>item. \<not> js_includes item CHR ''.'')
              (js_split CHR '' '' (trim response_content)))"

text \<open>
  \<^verbatim>\<open>response.choices[0].message.content\<close> is a string or \<^verbatim>\<open>null\<close>, and
  \<^verbatim>\<open>!response_content\<close> holds for \<^verbatim>\<open>null\<close> and for the empty string. A failure of
  the service rejects the \<^verbatim>\<open>await\<close> and with it the function.
\<close>

definition chatCompletionsQuery_end ::
  "string list \<Rightarrow> string option Settled \<Rightarrow> string option Settled" where
  "chatCompletionsQuery_end possibleMoves response =
     (case response of
        Rejected e \<Rightarrow> Rejected e
      | Resolved response_content \<Rightarrow>
          (case response_content of
             None \<Rightarrow> Rejected ''No choice found''
           | Some content \<Rightarrow>
               if content = [] then Rejected ''No choice found''
               else
                 (let choice = choice_of content;
                      move = find (\<lambda>move. Some move = choice) possibleMoves
                  in if falsy move then Resolved None else Resolved move)))"

definition completionsQuery_begin ::
  "('p, 'm) Chess \<Rightarrow> Model \<Rightarrow> 'p \<Rightarrow> string \<Rightarrow> Query" where
  "completionsQuery_begin E model game prompt =
     (let possibleMoves = moves E game in
      if game_over E game \<or> in_draw E game \<or> length possibleMoves = 0 then Returned_null
      else Awaiting
        (CompletionsCreate model (or_else (prompt @ pgn E game) ''1. '')
          \<lparr>temperature = 1, max_tokens = 10, top_p = 1,
           frequency_penalty = 0, presence_penalty = 0\<rparr>)
        possibleMoves)"

text \<open>
  \<^verbatim>\<open>completion.choices[0].text\<close> is typed as a string and is not tested before
  \<^verbatim>\<open>.trim()\<close> is called on it; on \<^verbatim>\<open>null\<close> that call would throw a TypeError.
\<close>

definition completionsQuery_end ::
  "string list \<Rightarrow> string option Settled \<Rightarrow> string option Settled" where
  "completionsQuery_end possibleMoves completion =
     (case completion of
        Rejected e \<Rightarrow> Rejected e
      | Resolved None \<Rightarrow> Rejected ''TypeError''
      | Resolved (Some response_content) \<Rightarrow>
          (let choice = choice_of response_content;
               move = find (\<lambda>move. Some move = choice) possibleMoves
           in if falsy move then Resolved None else Resolved move))"

text \<open>The code after the \<^verbatim>\<open>await\<close> of whichever query sent the request.\<close>

fun query_end :: "Request \<Rightarrow> string list \<Rightarrow> string option Settled \<Rightarrow> string option Settled" where
  "query_end (ChatCompletionsCreate m system user s) possibleMoves answer =
     chatCompletionsQuery_end possibleMoves answer"
| "query_end (CompletionsCreate m prompt s) possibleMoves answer =
     completionsQuery_end possibleMoves answer"


section \<open>The component \<^verbatim>\<open>PlayEngine\<close>\<close>

text \<open>
  \<open>View\<close> holds the values of the \<^verbatim>\<open>useState\<close> hooks as one render sees them. The
  functions declared in the component's body (\<^verbatim>\<open>autoPlay\<close>, \<^verbatim>\<open>movePiece\<close>, ...) are
  created anew by every render and close over that render's values, which are
  constants: a function reads them from its \<open>View\<close> (the argument \<open>env\<close> below) and
  writes through the setters to the page.

  \<open>game\<close> is a reference to an engine instance. An instance of chess.js 0.x (the
  version with \<^verbatim>\<open>ChessInstance\<close>, \<^verbatim>\<open>game_over\<close>, \<^verbatim>\<open>load_pgn\<close>) is an object of
  functions that share hidden state, so the copy \<^verbatim>\<open>{ ...game }\<close> is a new object with
  the same functions on the same state: here the same address in \<open>instances\<close>. A new
  instance is made by \<^verbatim>\<open>new Chess()\<close> only.

  Left out: the markup the component returns, the calls of \<^verbatim>\<open>console.log\<close>, the effect
  that creates the client of the LLM service from the API key, and the setters that the
  input fields call directly (\<^verbatim>\<open>setModel\<close>, \<^verbatim>\<open>setModel2\<close>, \<^verbatim>\<open>setPGNInput\<close>,
  \<^verbatim>\<open>setSystemPrompt\<close>, \<^verbatim>\<open>setUserPrompt\<close>). In the functions below \<^verbatim>\<open>!move\<close> is
  written out: the move is \<^verbatim>\<open>null\<close> or the empty string.
\<close>

record View =
  game :: nat
  model :: Model
  lastMessage :: string
  PGNInput :: string
  systemPrompt :: string
  userPrompt :: string
  retryCount :: nat
  isAutoPlay :: bool
  model2 :: Model

text \<open>
  The page: the current values of the hooks, the engine instances, the ref
  \<^verbatim>\<open>isAutoPlayRef.current\<close>, and the pending timers, each the \<^verbatim>\<open>autoPlay\<close> of some
  render: the one the effect on \<^verbatim>\<open>isAutoPlay\<close> has set (and clears in its cleanup),
  and those \<^verbatim>\<open>autoPlay\<close> sets itself, in the order they were set. All timers have
  the same delay, so they fire in the order they were set: the effect's timer is kept
  with the number of timers of \<open>timeouts\<close> that were set before it and fire before it.
\<close>

record 'p Page = View +
  instances :: "nat \<Rightarrow> 'p"
  allocated :: nat
  isAutoPlayRef :: bool
  effectTimeout :: "(nat \<times> View) option"
  timeouts :: "View list"

definition render :: "'p Page \<Rightarrow> View" where
  "render st = View.truncate st"

definition mount :: "('p, 'm) Chess \<Rightarrow> 'p Page" where
  "mount E =
     \<lparr>game = 0, model = DEFAULT_MODEL, lastMessage = [], PGNInput = [],
      systemPrompt = DEFAULT_SYSTEM_PROMPT, userPrompt = DEFAULT_USER_PROMPT,
      retryCount = 0, isAutoPlay = False, model2 = DEFAULT_MODEL,
      instances = (\<lambda>a. new_Chess E), allocated = 1, isAutoPlayRef = False,
      effectTimeout = None, timeouts = []\<rparr>"

text \<open>
  \<^verbatim>\<open>setIsAutoPlay(v)\<close> with the two effects that depend on \<^verbatim>\<open>isAutoPlay\<close>. They run
  only when the value changes: the cleanup clears the effect's timer, the ref takes
  the new value, and when it is true the effect sets a timer for the new render's
  \<^verbatim>\<open>autoPlay\<close>.
\<close>

definition setIsAutoPlay :: "bool \<Rightarrow> 'p Page \<Rightarrow> 'p Page" where
  "setIsAutoPlay v st =
     (if isAutoPlay st = v then st
      else st\<lparr>isAutoPlay := v, isAutoPlayRef := v,
              effectTimeout :=
                (if v then Some (length (timeouts st), render (st\<lparr>isAutoPlay := v\<rparr>))
                 else None)\<rparr>)"

text \<open>The auto-play button: \<^verbatim>\<open>setIsAutoPlay(!isAutoPlay)\<close>.\<close>

definition toggleAutoPlay :: "View \<Rightarrow> 'p Page \<Rightarrow> 'p Page" where
  "toggleAutoPlay env st = setIsAutoPlay (\<not> isAutoPlay env) st"

definition resetBoard :: "('p, 'm) Chess \<Rightarrow> 'p Page \<Rightarrow> 'p Page" where
  "resetBoard E st =
     st\<lparr>instances := (instances st)(allocated st := new_Chess E),
        allocated := Suc (allocated st), game := allocated st, lastMessage := []\<rparr>"

definition setGameStateFromPGN ::
  "('p, 'm) Chess \<Rightarrow> View \<Rightarrow> string \<Rightarrow> 'p Page \<Rightarrow> 'p Page" where
  "setGameStateFromPGN E env pgn_text st =
     (let gameCopy = game env;
          (isLoaded, left) = load_pgn E pgn_text (instances st gameCopy);
          st1 = st\<lparr>instances := (instances st)(gameCopy := left)\<rparr>
      in if \<not> isLoaded then st1\<lparr>PGNInput := ''Invalid PGN provided''\<rparr>
         else st1\<lparr>PGNInput := [], game := gameCopy\<rparr>)"

definition movePiece ::
  "('p, 'm) Chess \<Rightarrow> View \<Rightarrow> MoveArg \<Rightarrow> 'p Page \<Rightarrow> 'm option \<times> 'p Page" where
  "movePiece E env mv st =
     (let gameCopy = game env;
          (result, left) = move E mv (instances st gameCopy)
      in (result, st\<lparr>instances := (instances st)(gameCopy := left), game := gameCopy\<rparr>))"

text \<open>
  An \<^verbatim>\<open>async\<close> function of the component up to its \<^verbatim>\<open>await\<close>: finished (the query
  had returned \<^verbatim>\<open>null\<close> without a request), or suspended on a request.
\<close>

datatype 'p Run = Finished "'p Page" | Suspended Request "string list" "'p Page"

fun requested :: "'p Run \<Rightarrow> Request option" where
  "requested (Finished st) = None"
| "requested (Suspended req possibleMoves st) = Some req"

fun page_of :: "'p Run \<Rightarrow> 'p Page" where
  "page_of (Finished st) = st"
| "page_of (Suspended req possibleMoves st) = st"

text \<open>\<^verbatim>\<open>makeChatCompletionsMove\<close>: the code after the \<^verbatim>\<open>await\<close>, then the whole.\<close>

definition makeChatCompletionsMove_rest ::
  "('p, 'm) Chess \<Rightarrow> View \<Rightarrow> string option \<Rightarrow> 'p Page \<Rightarrow> 'p Page" where
  "makeChatCompletionsMove_rest E env mv st =
     (let no_move =
        st\<lparr>lastMessage := ''No/invalid move found by model. Try again by clicking button above.''\<rparr>
      in case mv of
           None \<Rightarrow> no_move
         | Some m \<Rightarrow>
             if m = [] then no_move
             else snd (movePiece E env (San m)
                        (st\<lparr>lastMessage := ''Model suggests move: '' @ m @ ''.''\<rparr>)))"

definition makeChatCompletionsMove_begin ::
  "('p, 'm) Chess \<Rightarrow> View \<Rightarrow> 'p Page \<Rightarrow> 'p Run" where
  "makeChatCompletionsMove_begin E env st =
     (case chatCompletionsQuery_begin E (model env) (instances st (game env))
             (systemPrompt env) (userPrompt env) of
        Returned_null \<Rightarrow> Finished (makeChatCompletionsMove_rest E env None st)
      | Awaiting req possibleMoves \<Rightarrow> Suspended req possibleMoves st)"

definition makeChatCompletionsMove_end ::
  "('p, 'm) Chess \<Rightarrow> View \<Rightarrow> string option Settled \<Rightarrow> 'p Page \<Rightarrow> 'p Page" where
  "makeChatCompletionsMove_end E env query st =
     (case query of
        Rejected e \<Rightarrow> st
      | Resolved mv \<Rightarrow> makeChatCompletionsMove_rest E env mv st)"

text \<open>\<^verbatim>\<open>makeCompletionsMove\<close>, likewise.\<close>

definition makeCompletionsMove_rest ::
  "('p, 'm) Chess \<Rightarrow> View \<Rightarrow> string option \<Rightarrow> 'p Page \<Rightarrow> 'p Page" where
  "makeCompletionsMove_rest E env mv st =
     (let no_move =
        st\<lparr>lastMessage := ''No/invalid move found by model. Try again by clicking button above.''\<rparr>
      in case mv of
           None \<Rightarrow> no_move
         | Some m \<Rightarrow>
             if m = [] then no_move
             else snd (movePiece E env (San m)
                        (st\<lparr>lastMessage := ''Model suggests move: '' @ m @ ''.''\<rparr>)))"

definition makeCompletionsMove_begin ::
  "('p, 'm) Chess \<Rightarrow> View \<Rightarrow> 'p Page \<Rightarrow> 'p Run" where
  "makeCompletionsMove_begin E env st =
     (case completionsQuery_begin E (model env) (instances st (game env)) (userPrompt env) of
        Returned_null \<Rightarrow> Finished (makeCompletionsMove_rest E env None st)
      | Awaiting req possibleMoves \<Rightarrow> Suspended req possibleMoves st)"

definition makeCompletionsMove_end ::
  "('p, 'm) Chess \<Rightarrow> View \<Rightarrow> string option Settled \<Rightarrow> 'p Page \<Rightarrow> 'p Page" where
  "makeCompletionsMove_end E env query st =
     (case query of
        Rejected e \<Rightarrow> st
      | Resolved mv \<Rightarrow> makeCompletionsMove_rest E env mv st)"

text \<open>The button "Force Model to Make Next Move".\<close>

definition forceMove :: "('p, 'm) Chess \<Rightarrow> View \<Rightarrow> 'p Page \<Rightarrow> 'p Run" where
  "forceMove E env st =
     (if useChatCompletions (model env) then makeChatCompletionsMove_begin E env st
      else makeCompletionsMove_begin E env st)"

text \<open>
  \<^verbatim>\<open>onDrop\<close> returns its boolean at once; the move of the model it asks for is not
  awaited.
\<close>

definition onDrop ::
  "('p, 'm) Chess \<Rightarrow> View \<Rightarrow> Square \<Rightarrow> Square \<Rightarrow> string \<Rightarrow> 'p Page \<Rightarrow> bool \<times> 'p Run" where
  "onDrop E env sourceSquare targetSquare piece st =
     (let (mv, st1) = movePiece E env (ShortMove sourceSquare targetSquare (Some ''q'')) st
      in if mv = None then (False, Finished st1)
         else
           (let st2 = setIsAutoPlay False st1
            in (True,
                if useChatCompletions (model env) then makeChatCompletionsMove_begin E env st2
                else makeCompletionsMove_begin E env st2)))"

text \<open>
  \<^verbatim>\<open>autoPlay\<close>. The code after the \<^verbatim>\<open>await\<close> reads \<^verbatim>\<open>retryCount\<close> of its own render
  and sets the timer for the \<^verbatim>\<open>autoPlay\<close> of its own render.
\<close>

definition autoPlay_rest ::
  "('p, 'm) Chess \<Rightarrow> View \<Rightarrow> string option \<Rightarrow> 'p Page \<Rightarrow> 'p Page" where
  "autoPlay_rest E env mv st =
     (let no_move =
        (if retryCount env < 3
         then st\<lparr>retryCount := retryCount env + 1, timeouts := timeouts st @ [env]\<rparr>
         else (setIsAutoPlay False st)
                \<lparr>retryCount := 0,
                 lastMessage := ''No/invalid move found by model after 3 retries. AutoPlay stopped.''\<rparr>)
      in case mv of
           None \<Rightarrow> no_move
         | Some m \<Rightarrow>
             if m = [] then no_move
             else
               (let st1 = snd (movePiece E env (San m)
                                (st\<lparr>retryCount := 0,
                                    lastMessage := ''Model suggests move: '' @ m @ ''.''\<rparr>))
                in st1\<lparr>timeouts := timeouts st1 @ [env]\<rparr>))"

definition autoPlay_begin :: "('p, 'm) Chess \<Rightarrow> View \<Rightarrow> 'p Page \<Rightarrow> 'p Run" where
  "autoPlay_begin E env st =
     (if \<not> isAutoPlayRef st then Finished st
      else
        (let currentModel =
               (if turn E (instances st (game env)) = White then model env else model2 env)
         in case (if useChatCompletions currentModel
                  then chatCompletionsQuery_begin E currentModel (instances st (game env))
                         (systemPrompt env) (userPrompt env)
                  else completionsQuery_begin E currentModel (instances st (game env))
                         (userPrompt env)) of
              Returned_null \<Rightarrow> Finished (autoPlay_rest E env None st)
            | Awaiting req possibleMoves \<Rightarrow> Suspended req possibleMoves st))"

definition autoPlay_end ::
  "('p, 'm) Chess \<Rightarrow> View \<Rightarrow> string option Settled \<Rightarrow> 'p Page \<Rightarrow> 'p Page" where
  "autoPlay_end E env query st =
     (case query of
        Rejected e \<Rightarrow> st
      | Resolved mv \<Rightarrow> autoPlay_rest E env mv st)"

text \<open>
  One cycle of auto-play with nothing else happening on the page: the timer of
  \<open>env\<close>'s \<^verbatim>\<open>autoPlay\<close> fires, and \<open>answer\<close> is what the service would answer.
\<close>

definition cycle ::
  "('p, 'm) Chess \<Rightarrow> View \<Rightarrow> string option Settled \<Rightarrow> 'p Page \<Rightarrow> 'p Page" where
  "cycle E env answer st =
     (case autoPlay_begin E env st of
        Finished st' \<Rightarrow> st'
      | Suspended req possibleMoves st' \<Rightarrow>
          autoPlay_end E env (query_end req possibleMoves answer) st')"

text \<open>
  The timer that fires next, with the page without it: the first of \<open>timeouts\<close>, or
  the effect's timer when none of those that were set before it is left.
\<close>

definition next_timeout :: "'p Page \<Rightarrow> (View \<times> 'p Page) option" where
  "next_timeout st =
     (case effectTimeout st of
        None \<Rightarrow>
          (case timeouts st of
             [] \<Rightarrow> None
           | env # pending \<Rightarrow> Some (env, st\<lparr>timeouts := pending\<rparr>))
      | Some (before, effect_env) \<Rightarrow>
          (case timeouts st of
             [] \<Rightarrow> Some (effect_env, st\<lparr>effectTimeout := None\<rparr>)
           | env # pending \<Rightarrow>
               if before = 0 then Some (effect_env, st\<lparr>effectTimeout := None\<rparr>)
               else Some (env, st\<lparr>timeouts := pending,
                                  effectTimeout := Some (before - 1, effect_env)\<rparr>)))"

text \<open>
  The timers fire in the order they were set, one cycle per timer; \<open>answers\<close> lists
  what the service would answer in each cycle. The run ends when no timer is pending.
\<close>

fun cycles :: "('p, 'm) Chess \<Rightarrow> string option Settled list \<Rightarrow> 'p Page \<Rightarrow> 'p Page" where
  "cycles E [] st = st"
| "cycles E (answer # answers) st =
     (case next_timeout st of
        None \<Rightarrow> st
      | Some (env, st') \<Rightarrow> cycles E answers (cycle E env answer st'))"


section \<open>A small engine for concrete runs\<close>

text \<open>
  An engine with the interface above for a game of two plies: White pushes the e- or
  the d-pawn two squares, Black answers in kind, and the game is over. A position is
  the list of moves played. \<open>load_pgn\<close> works in the order of chess.js 0.x: it resets
  the instance, replays the moves of the text one by one and returns \<^verbatim>\<open>false\<close> at the
  first one that cannot be played, leaving the instance where the replay stopped (a
  text without a move fails at once, the instance reset);
  \<open>move\<close> returns \<^verbatim>\<open>null\<close> and leaves the instance alone when the move is not legal.
\<close>

fun mini_moves :: "string list \<Rightarrow> string list" where
  "mini_moves [] = [''e4'', ''d4'']"
| "mini_moves [m] = [''e5'', ''d5'']"
| "mini_moves (m # n # ms) = []"

fun mini_pgn :: "string list \<Rightarrow> string" where
  "mini_pgn [] = []"
| "mini_pgn [m] = ''1. '' @ m"
| "mini_pgn (m # n # ms) = ''1. '' @ m @ '' '' @ n"

fun mini_san :: "MoveArg \<Rightarrow> string" where
  "mini_san (San s) = s"
| "mini_san (ShortMove f t promotion) =
     (if (f, t) \<in> set [(''e2'', ''e4''), (''d2'', ''d4''), (''e7'', ''e5''), (''d7'', ''d5'')]
      then t else [])"

definition mini_move :: "MoveArg \<Rightarrow> string list \<Rightarrow> string option \<times> string list" where
  "mini_move mv p =
     (if mini_san mv \<in> set (mini_moves p) then (Some (mini_san mv), p @ [mini_san mv])
      else (None, p))"

fun mini_replay :: "string list \<Rightarrow> string list \<Rightarrow> bool \<times> string list" where
  "mini_replay [] p = (True, p)"
| "mini_replay (t # ts) p =
     (if t \<in> set (mini_moves p) then mini_replay ts (p @ [t]) else (False, p))"

definition mini_load_pgn :: "string \<Rightarrow> string list \<Rightarrow> bool \<times> string list" where
  "mini_load_pgn text p =
     (let tokens =
        filter (\<lambda>t. t \<noteq> [] \<and> \<not> js_includes t CHR ''.'') (js_split CHR '' '' (trim text))
      in if tokens = [] then (False, []) else mini_replay tokens [])"

definition Mini :: "(string list, string) Chess" where
  "Mini =
     \<lparr>new_Chess = [], moves = mini_moves, game_over = (\<lambda>p. mini_moves p = []),
      in_draw = (\<lambda>p. False), pgn = mini_pgn,
      turn = (\<lambda>p. if even (length p) then White else Black),
      load_pgn = mini_load_pgn, move = mini_move\<rparr>"


text \<open>
  Pages with that engine: \<open>started\<close> is the page just mounted after a click on "Start
  Auto Play"; \<open>in_flight\<close> is \<open>started\<close> once the effect's timer has fired and the
  first \<^verbatim>\<open>autoPlay\<close> waits for the service; \<open>played\<close> is the mounted page after
  1. e4 e5.
\<close>

definition started :: "string list Page" where
  "started = toggleAutoPlay (render (mount Mini)) (mount Mini)"

definition in_flight :: "string list Page" where
  "in_flight = page_of (autoPlay_begin Mini (render started) (started\<lparr>effectTimeout := None\<rparr>))"

definition played :: "string list Page" where
  "played = (mount Mini)\<lparr>instances := (instances (mount Mini))(0 := [''e4'', ''e5''])\<rparr>"

text \<open>
  \<open>retrying\<close> is \<open>started\<close> after a cycle that found no move: the counter is 1 and the
  timer of the same \<^verbatim>\<open>autoPlay\<close> is pending. \<open>black_to_move\<close> is a page after 1. e4
  with auto-play on, the chat model gpt-4 in the first slot and the completion model in
  the second.
\<close>

definition retrying :: "string list Page" where
  "retrying = started\<lparr>retryCount := 1, effectTimeout := None, timeouts := [render started]\<rparr>"

definition black_to_move :: "string list Page" where
  "black_to_move =
     (mount Mini)\<lparr>model := gpt_4, isAutoPlay := True, isAutoPlayRef := True,
                  instances := (instances (mount Mini))(0 := [''e4''])\<rparr>"

text \<open>The same page with the two slots exchanged.\<close>

definition black_to_move_swapped :: "string list Page" where
  "black_to_move_swapped = black_to_move\<lparr>model := gpt_3_5_turbo_instruct, model2 := gpt_4\<rparr>"

section \<open>Splitting and trimming\<close>

lemma js_split_nonempty: "js_split sep s \<noteq> []"
  by (induction s) (auto split: list.splits)

lemma js_join_js_split: "js_join sep (js_split sep s) = s"
proof (induction s)
  case Nil
  show ?case by simp
next
  case (Cons x xs)
  obtain t ts where ts: "js_split sep xs = t # ts"
    using js_split_nonempty [of sep xs] by (cases "js_split sep xs") auto
  show ?case
  proof (cases "x = sep")
    case True
    with Cons ts show ?thesis by simp
  next
    case False
    with Cons ts show ?thesis by (cases ts) auto
  qed
qed

lemma js_split_no_sep: "t \<in> set (js_split sep s) \<Longrightarrow> sep \<notin> set t"
  by (induction s arbitrary: t) (auto split: if_splits list.splits)

lemma first_filter: "first (filter P xs) = find P xs"
  by (induction xs) (auto simp: first_def)

lemma trim_middle:
  "s = takeWhile isWhiteSpace s @ trim s
         @ rev (takeWhile isWhiteSpace (rev (dropWhile isWhiteSpace s)))"
proof -
  let ?r = "rev (dropWhile isWhiteSpace s)"
  have "rev (takeWhile isWhiteSpace ?r @ dropWhile isWhiteSpace ?r) = rev ?r"
    by (simp only: takeWhile_dropWhile_id)
  then have "dropWhile isWhiteSpace s = trim s @ rev (takeWhile isWhiteSpace ?r)"
    by (simp only: rev_append rev_rev_ident trim_def)
  moreover have "s = takeWhile isWhiteSpace s @ dropWhile isWhiteSpace s" by simp
  ultimately show ?thesis by simp
qed

lemma trim_ends:
  assumes "trim s \<noteq> []"
  shows "\<not> isWhiteSpace (hd (trim s))" and "\<not> isWhiteSpace (last (trim s))"
proof -
  let ?d = "dropWhile isWhiteSpace s"
  let ?e = "dropWhile isWhiteSpace (rev ?d)"
  from assms have e: "?e \<noteq> []" by (simp add: trim_def)
  then have d: "?d \<noteq> []" by (metis dropWhile.simps(1) rev.simps(1))
  have "last (trim s) = hd ?e" using e by (simp add: trim_def last_rev)
  moreover have "\<not> isWhiteSpace (hd ?e)" using e by (rule hd_dropWhile)
  ultimately show "\<not> isWhiteSpace (last (trim s))" by simp
  have "rev ?d = takeWhile isWhiteSpace (rev ?d) @ ?e" by simp
  then have "last (rev ?d) = last ?e" using e by (metis last_appendR)
  then have "hd (trim s) = hd ?d" using e d by (simp add: trim_def hd_rev last_rev)
  moreover have "\<not> isWhiteSpace (hd ?d)" using d by (rule hd_dropWhile)
  ultimately show "\<not> isWhiteSpace (hd (trim s))" by simp
qed

lemma find_choice:
  "find (\<lambda>m. Some m = choice) possibleMoves =
     (if \<exists>c. choice = Some c \<and> c \<in> set possibleMoves then choice else None)"
  by (induction possibleMoves) auto

lemma DEFAULT_USER_PROMPT_nonempty: "DEFAULT_USER_PROMPT \<noteq> []"
  by (simp add: DEFAULT_USER_PROMPT_def)


section \<open>The move proposer\<close>

text \<open>
  C2. For every reply text, the candidate is found by trimming the text of surrounding
  whitespace (the reply is whitespace, the trimmed text, whitespace, and the trimmed
  text neither starts nor ends with whitespace), splitting the trimmed text on spaces
  (the tokens hold no space, and joined by single spaces they give the trimmed text
  back), and taking the first token that contains no period, if there is one.
\<close>

theorem C2_candidate_extraction:
  "(\<exists>before after. response_content = before @ trim response_content @ after
       \<and> list_all isWhiteSpace before \<and> list_all isWhiteSpace after)
   \<and> (trim response_content \<noteq> [] \<longrightarrow>
        \<not> isWhiteSpace (hd (trim response_content))
        \<and> \<not> isWhiteSpace (last (trim response_content)))
   \<and> js_join CHR '' '' (js_split CHR '' '' (trim response_content)) = trim response_content
   \<and> (\<forall>t \<in> set (js_split CHR '' '' (trim response_content)). CHR '' '' \<notin> set t)
   \<and> choice_of response_content =
        find (\<lambda>t. CHR ''.'' \<notin> set t) (js_split CHR '' '' (trim response_content))"
proof -
  have "list_all isWhiteSpace (takeWhile isWhiteSpace response_content)"
    by (simp add: list_all_iff) (meson set_takeWhileD)
  moreover have "list_all isWhiteSpace
      (rev (takeWhile isWhiteSpace (rev (dropWhile isWhiteSpace response_content))))"
    by (simp add: list_all_iff) (meson set_takeWhileD)
  ultimately have "\<exists>before after. response_content = before @ trim response_content @ after
       \<and> list_all isWhiteSpace before \<and> list_all isWhiteSpace after"
    using trim_middle [of response_content] by blast
  moreover have "choice_of response_content =
        find (\<lambda>t. CHR ''.'' \<notin> set t) (js_split CHR '' '' (trim response_content))"
    by (simp add: choice_of_def first_filter js_includes_def)
  ultimately show ?thesis
    using trim_ends [of response_content] js_join_js_split js_split_no_sep by blast
qed

theorem C2_candidate_extraction_witness:
  "trim '' 1. e4 is strong '' = ''1. e4 is strong''
   \<and> trim '' 1. e4 is strong '' \<noteq> []
   \<and> \<not> isWhiteSpace (hd (trim '' 1. e4 is strong ''))
   \<and> \<not> isWhiteSpace (last (trim '' 1. e4 is strong ''))
   \<and> js_split CHR '' '' ''1. e4 is strong'' = [''1.'', ''e4'', ''is'', ''strong'']
   \<and> ''e4'' \<in> set (js_split CHR '' '' (trim '' 1. e4 is strong ''))
   \<and> CHR '' '' \<notin> set ''e4''
   \<and> choice_of '' 1. e4 is strong '' = Some ''e4''"
  using C2_candidate_extraction [of "'' 1. e4 is strong ''"]
  by (simp add: trim_def isWhiteSpace_def)




text \<open>
  C3. In a terminal position (the engine reports the game over or drawn, or the list
  of legal moves is empty) both queries have returned \<^verbatim>\<open>null\<close> before any request
  is made: \<open>Returned_null\<close> is the outcome that carries no request. So when the game
  of the page is in such a position, neither the force-move button nor \<^verbatim>\<open>autoPlay\<close>
  sends a request.
\<close>

theorem C3_terminal_position_no_request:
  assumes "game_over E g \<or> in_draw E g \<or> moves E g = []"
  shows "chatCompletionsQuery_begin E m g system prompt = Returned_null
       \<and> completionsQuery_begin E m' g prompt = Returned_null
       \<and> (instances st (game env) = g \<longrightarrow>
            requested (forceMove E env st) = None
            \<and> requested (autoPlay_begin E env st) = None)"
proof -
  have chat: "chatCompletionsQuery_begin E a g b c = Returned_null" for a b c
    using assms by (auto simp: chatCompletionsQuery_begin_def)
  have completion: "completionsQuery_begin E a g c = Returned_null" for a c
    using assms by (auto simp: completionsQuery_begin_def)
  have "requested (forceMove E env st) = None \<and> requested (autoPlay_begin E env st) = None"
    if "instances st (game env) = g"
    using that
    by (simp add: forceMove_def makeChatCompletionsMove_begin_def
        makeCompletionsMove_begin_def autoPlay_begin_def Let_def chat completion)
  with chat completion show ?thesis by blast
qed

theorem C3_terminal_position_no_request_witness:
  "game_over Mini [''e4'', ''e5'']
   \<and> chatCompletionsQuery_begin Mini gpt_4 [''e4'', ''e5''] DEFAULT_SYSTEM_PROMPT
       DEFAULT_USER_PROMPT = Returned_null
   \<and> completionsQuery_begin Mini gpt_3_5_turbo_instruct [''e4'', ''e5'']
       DEFAULT_USER_PROMPT = Returned_null
   \<and> instances (played\<lparr>isAutoPlayRef := True\<rparr>) (game (render played)) = [''e4'', ''e5'']
   \<and> requested (forceMove Mini (render played) (played\<lparr>isAutoPlayRef := True\<rparr>)) = None
   \<and> requested (autoPlay_begin Mini (render played) (played\<lparr>isAutoPlayRef := True\<rparr>)) = None"
  using C3_terminal_position_no_request [where E = Mini and g = "[''e4'', ''e5'']"
      and m = gpt_4 and system = DEFAULT_SYSTEM_PROMPT and prompt = DEFAULT_USER_PROMPT
      and m' = gpt_3_5_turbo_instruct and st = "played\<lparr>isAutoPlayRef := True\<rparr>"
      and env = "render played"]
  by (simp add: Mini_def played_def mount_def render_def View.truncate_def)

text \<open>
  C8, what the code does. \<^verbatim>\<open>prompt + game.pgn() || '1. '\<close> is
  \<^verbatim>\<open>(prompt + game.pgn()) || '1. '\<close>: when the serialization is empty and the user
  prompt is not, the text sent is the user prompt alone, and \<^verbatim>\<open>1. \<close> is not appended.
\<close>

theorem C8_empty_game_sends_prompt_alone:
  assumes "pgn E g = []" and "prompt \<noteq> []"
    and "\<not> (game_over E g \<or> in_draw E g \<or> moves E g = [])"
  shows "chatCompletionsQuery_begin E m g system prompt =
           Awaiting (ChatCompletionsCreate m system prompt
             \<lparr>temperature = 1, max_tokens = 10, top_p = 1,
              frequency_penalty = 0, presence_penalty = 0\<rparr>) (moves E g)
       \<and> completionsQuery_begin E m' g prompt =
           Awaiting (CompletionsCreate m' prompt
             \<lparr>temperature = 1, max_tokens = 10, top_p = 1,
              frequency_penalty = 0, presence_penalty = 0\<rparr>) (moves E g)"
  using assms
  by (simp add: chatCompletionsQuery_begin_def completionsQuery_begin_def or_else_def)

theorem C8_empty_game_sends_prompt_alone_witness:
  "pgn Mini (new_Chess Mini) = []
   \<and> chatCompletionsQuery_begin Mini gpt_4 (new_Chess Mini) DEFAULT_SYSTEM_PROMPT
       DEFAULT_USER_PROMPT =
         Awaiting (ChatCompletionsCreate gpt_4 DEFAULT_SYSTEM_PROMPT DEFAULT_USER_PROMPT
             \<lparr>temperature = 1, max_tokens = 10, top_p = 1,
              frequency_penalty = 0, presence_penalty = 0\<rparr>) [''e4'', ''d4'']
   \<and> completionsQuery_begin Mini gpt_3_5_turbo_instruct (new_Chess Mini)
       DEFAULT_USER_PROMPT =
         Awaiting (CompletionsCreate gpt_3_5_turbo_instruct DEFAULT_USER_PROMPT
             \<lparr>temperature = 1, max_tokens = 10, top_p = 1,
              frequency_penalty = 0, presence_penalty = 0\<rparr>) [''e4'', ''d4'']"
  using C8_empty_game_sends_prompt_alone [of Mini "new_Chess Mini" DEFAULT_USER_PROMPT
      gpt_4 DEFAULT_SYSTEM_PROMPT gpt_3_5_turbo_instruct]
    DEFAULT_USER_PROMPT_nonempty
  by (simp add: Mini_def)

text \<open>
  C9, as amended. The chat-style query throws \<^verbatim>\<open>No choice found\<close> when the content
  of the answer is \<^verbatim>\<open>null\<close> or empty. The completion-style query has no such test:
  it parses the empty text like any other and returns \<^verbatim>\<open>null\<close>, whatever the legal
  moves are.
\<close>

theorem C9_empty_answer:
  "chatCompletionsQuery_end possibleMoves (Resolved None) = Rejected ''No choice found''
   \<and> chatCompletionsQuery_end possibleMoves (Resolved (Some [])) = Rejected ''No choice found''
   \<and> completionsQuery_end possibleMoves (Resolved (Some [])) = Resolved None"
  by (auto simp: chatCompletionsQuery_end_def completionsQuery_end_def find_choice
      falsy_def Let_def choice_of_def trim_def js_includes_def first_def)

text \<open>
  The claim C9 as it was stated fails for the completion-style query: on the empty
  text it returns \<^verbatim>\<open>null\<close> and throws nothing.
\<close>

theorem C9_counterexample_completion_returns_null:
  "completionsQuery_end [''e4'', ''d4''] (Resolved (Some [])) = Resolved None"
  by (simp add: completionsQuery_end_def choice_of_def trim_def js_includes_def first_def
      falsy_def)


section \<open>The component\<close>

lemmas page_defs = mount_def render_def View.truncate_def setIsAutoPlay_def toggleAutoPlay_def
  DEFAULT_MODEL_def

lemmas query_defs = chatCompletionsQuery_begin_def completionsQuery_begin_def
  chatCompletionsQuery_end_def completionsQuery_end_def choice_of_def trim_def isWhiteSpace_def
  js_includes_def first_def falsy_def or_else_def

lemmas mini_defs = Mini_def mini_move_def mini_load_pgn_def

lemma started_eq:
  "started = (mount Mini)\<lparr>isAutoPlay := True, isAutoPlayRef := True,
      effectTimeout := Some (0, (render (mount Mini))\<lparr>isAutoPlay := True\<rparr>)\<rparr>"
  by (simp add: started_def page_defs)

lemma in_flight_eq: "in_flight = started\<lparr>effectTimeout := None\<rparr>"
  by (simp add: in_flight_def autoPlay_begin_def started_eq page_defs query_defs mini_defs
      DEFAULT_USER_PROMPT_nonempty)

text \<open>
  C6, as amended. The engine decides what is legal: a move is illegal when the engine's
  \<^verbatim>\<open>move\<close> returns \<^verbatim>\<open>null\<close>. For a handler of the render that shows the game
  (\<open>current\<close>: its \<^verbatim>\<open>game\<close> is the game of the page, as for every board drop) and
  every move argument: \<^verbatim>\<open>movePiece\<close> returns what the engine's \<^verbatim>\<open>move\<close> returns
  and changes nothing on the page but the state of the game's instance, which is the
  state the engine left. So on an illegal move that the engine rejects without touching
  its instance (as chess.js does), \<^verbatim>\<open>movePiece\<close> returns \<^verbatim>\<open>null\<close> and the page,
  the game included, is what it was, and \<^verbatim>\<open>onDrop\<close> returns \<^verbatim>\<open>false\<close>, asks no
  model and changes nothing. On a legal move \<^verbatim>\<open>movePiece\<close> returns the realized move
  with the engine's new state in the game; a legal drop returns \<^verbatim>\<open>true\<close>, switches
  auto-play off and goes on as the force-move button does on the new position.
\<close>

theorem C6_move_by_current_handler:
  assumes current: "game env = game st"
  shows "movePiece E env mv st =
           (fst (move E mv (instances st (game st))),
            st\<lparr>instances := (instances st)
                   (game st := snd (move E mv (instances st (game st))))\<rparr>)
       \<and> (fst (move E mv (instances st (game st))) = None
            \<and> snd (move E mv (instances st (game st))) = instances st (game st) \<longrightarrow>
            movePiece E env mv st = (None, st))
       \<and> (fst (move E (ShortMove sourceSquare targetSquare (Some ''q''))
                 (instances st (game st))) = None
            \<and> snd (move E (ShortMove sourceSquare targetSquare (Some ''q''))
                 (instances st (game st))) = instances st (game st) \<longrightarrow>
            onDrop E env sourceSquare targetSquare piece st = (False, Finished st))
       \<and> (\<forall>m. fst (move E mv (instances st (game st))) = Some m \<longrightarrow>
            movePiece E env mv st =
              (Some m, st\<lparr>instances := (instances st)
                              (game st := snd (move E mv (instances st (game st))))\<rparr>))
       \<and> (fst (move E (ShortMove sourceSquare targetSquare (Some ''q''))
                 (instances st (game st))) \<noteq> None \<longrightarrow>
            onDrop E env sourceSquare targetSquare piece st =
              (True, forceMove E env
                 (setIsAutoPlay False
                    (st\<lparr>instances := (instances st)
                           (game st := snd (move E (ShortMove sourceSquare targetSquare (Some ''q''))
                                             (instances st (game st))))\<rparr>))))"
proof -
  have whole: "movePiece E env a st =
           (fst (move E a (instances st (game st))),
            st\<lparr>instances := (instances st)
                   (game st := snd (move E a (instances st (game st))))\<rparr>)" for a
    using current by (simp add: movePiece_def split_beta Let_def)
  have same: "st\<lparr>instances := (instances st)(game st := instances st (game st))\<rparr> = st"
    by simp
  have rejected: "movePiece E env a st = (None, st)"
    if "fst (move E a (instances st (game st))) = None
        \<and> snd (move E a (instances st (game st))) = instances st (game st)" for a
    using that whole [of a] same by simp
  have dropped_back: "onDrop E env sourceSquare targetSquare piece st = (False, Finished st)"
    if "fst (move E (ShortMove sourceSquare targetSquare (Some ''q''))
                 (instances st (game st))) = None
        \<and> snd (move E (ShortMove sourceSquare targetSquare (Some ''q''))
                 (instances st (game st))) = instances st (game st)"
    using rejected [OF that] by (simp add: onDrop_def Let_def)
  have dropped: "onDrop E env sourceSquare targetSquare piece st =
              (True, forceMove E env
                 (setIsAutoPlay False
                    (st\<lparr>instances := (instances st)
                           (game st := snd (move E (ShortMove sourceSquare targetSquare (Some ''q''))
                                             (instances st (game st))))\<rparr>)))"
    if "fst (move E (ShortMove sourceSquare targetSquare (Some ''q''))
                 (instances st (game st))) \<noteq> None"
    using that whole [of "ShortMove sourceSquare targetSquare (Some ''q'')"]
    by (simp add: onDrop_def forceMove_def Let_def)
  from whole [of mv] rejected [of mv] dropped_back dropped show ?thesis by simp
qed

theorem C6_move_by_current_handler_witness:
  "game (render (mount Mini)) = game (mount Mini)
   \<and> fst (move Mini (San ''e5'') (instances (mount Mini) (game (mount Mini)))) = None
   \<and> snd (move Mini (San ''e5'') (instances (mount Mini) (game (mount Mini))))
       = instances (mount Mini) (game (mount Mini))
   \<and> movePiece Mini (render (mount Mini)) (San ''e5'') (mount Mini) = (None, mount Mini)
   \<and> onDrop Mini (render (mount Mini)) ''e2'' ''e5'' ''wP'' (mount Mini)
       = (False, Finished (mount Mini))
   \<and> movePiece Mini (render (mount Mini)) (San ''e4'') (mount Mini)
       = (Some ''e4'', (mount Mini)\<lparr>instances := (instances (mount Mini))(0 := [''e4''])\<rparr>)
   \<and> fst (move Mini (ShortMove ''e2'' ''e4'' (Some ''q''))
         (instances started (game started))) \<noteq> None
   \<and> onDrop Mini (render started) ''e2'' ''e4'' ''wP'' started
       = (True, forceMove Mini (render started)
           (setIsAutoPlay False (started\<lparr>instances := (instances started)(0 := [''e4''])\<rparr>)))
   \<and> \<not> isAutoPlay (page_of (snd (onDrop Mini (render started) ''e2'' ''e4'' ''wP'' started)))
   \<and> instances (page_of (snd (onDrop Mini (render started) ''e2'' ''e4'' ''wP'' started))) 0
       = [''e4'']
   \<and> map_option request_model
        (requested (snd (onDrop Mini (render started) ''e2'' ''e4'' ''wP'' started)))
       = Some gpt_3_5_turbo_instruct"
  using
    C6_move_by_current_handler [where E = Mini and env = "render (mount Mini)"
      and st = "mount Mini" and mv = "San ''e5''" and sourceSquare = "''e2''"
      and targetSquare = "''e5''" and piece = "''wP''"]
    C6_move_by_current_handler [where E = Mini and env = "render (mount Mini)"
      and st = "mount Mini" and mv = "San ''e4''" and sourceSquare = "''e2''"
      and targetSquare = "''e5''" and piece = "''wP''"]
    C6_move_by_current_handler [where E = Mini and env = "render started"
      and st = started and mv = "San ''e4''" and sourceSquare = "''e2''"
      and targetSquare = "''e4''" and piece = "''wP''"]
  by (simp add: started_def movePiece_def onDrop_def forceMove_def
      makeCompletionsMove_begin_def completionsQuery_begin_def or_else_def page_defs
      Mini_def mini_move_def DEFAULT_USER_PROMPT_nonempty)

text \<open>
  The claim C6 as it was stated fails for a handler of an earlier render.
  \<^verbatim>\<open>movePiece\<close> calls \<^verbatim>\<open>setGame(gameCopy)\<close> whatever the engine returned, with the
  \<^verbatim>\<open>game\<close> of its own render, and it is called after an \<^verbatim>\<open>await\<close> (lines 146, 178,
  185), when the board may have been reset. Here the game 1. e4 e5 was reset, the page
  shows the new, empty game, and a handler of the render before the reset applies
  \<^verbatim>\<open>e5\<close>: the move is illegal (in the old game and in the new one), the engine
  returns \<^verbatim>\<open>null\<close> and leaves its instance alone, \<^verbatim>\<open>movePiece\<close> returns
  \<^verbatim>\<open>null\<close>, and the page shows 1. e4 e5 again.
\<close>

theorem C6_counterexample_stale_handler:
  "fst (move Mini (San ''e5'') (instances (resetBoard Mini played) (game (render played)))) = None
   \<and> snd (move Mini (San ''e5'') (instances (resetBoard Mini played) (game (render played))))
       = instances (resetBoard Mini played) (game (render played))
   \<and> fst (move Mini (San ''e5'')
        (instances (resetBoard Mini played) (game (resetBoard Mini played)))) = None
   \<and> pgn Mini (instances (resetBoard Mini played) (game (resetBoard Mini played))) = []
   \<and> fst (movePiece Mini (render played) (San ''e5'') (resetBoard Mini played)) = None
   \<and> snd (movePiece Mini (render played) (San ''e5'') (resetBoard Mini played))
       \<noteq> resetBoard Mini played
   \<and> pgn Mini
        (instances (snd (movePiece Mini (render played) (San ''e5'') (resetBoard Mini played)))
           (game (snd (movePiece Mini (render played) (San ''e5'') (resetBoard Mini played)))))
       = ''1. e4 e5''"
proof -
  have "game (snd (movePiece Mini (render played) (San ''e5'') (resetBoard Mini played))) = 0"
    by (simp add: movePiece_def played_def resetBoard_def page_defs Mini_def mini_move_def)
  moreover have "game (resetBoard Mini played) = 1"
    by (simp add: played_def resetBoard_def page_defs)
  ultimately have "snd (movePiece Mini (render played) (San ''e5'') (resetBoard Mini played))
       \<noteq> resetBoard Mini played"
    by (metis zero_neq_one)
  then show ?thesis
    by (simp add: movePiece_def played_def resetBoard_def page_defs Mini_def mini_move_def)
qed

text \<open>
  C5, what the code does on a text that does not load. \<^verbatim>\<open>gameCopy\<close> shares the
  instance of \<^verbatim>\<open>game\<close>, so what \<^verbatim>\<open>load_pgn\<close> did before it gave up stays in the
  game: with any engine, whether the text loaded or not, the instance of the game
  is in the state \<^verbatim>\<open>load_pgn\<close> left. With the small engine, after 1. e4 e5, the text
  \<^verbatim>\<open>1. d4 zz\<close> does not load: the error text is put in the PGN input,
  \<^verbatim>\<open>setGame\<close> is not called, and the game is not the one before but 1. d4.
\<close>

theorem C5_failed_load_changes_the_game:
  "instances (setGameStateFromPGN E env pgn_text st) (game env)
     = snd (load_pgn E pgn_text (instances st (game env)))
   \<and> PGNInput (setGameStateFromPGN E env pgn_text st)
     = (if fst (load_pgn E pgn_text (instances st (game env))) then []
        else ''Invalid PGN provided'')
   \<and> pgn Mini (instances played (game played)) = ''1. e4 e5''
   \<and> fst (load_pgn Mini ''1. d4 zz'' (instances played (game played))) = False
   \<and> setGameStateFromPGN Mini (render played) ''1. d4 zz'' played =
       played\<lparr>instances := (instances played)(game played := [''d4'']),
              PGNInput := ''Invalid PGN provided''\<rparr>
   \<and> pgn Mini (instances (setGameStateFromPGN Mini (render played) ''1. d4 zz'' played)
        (game played)) = ''1. d4''"
  by (simp add: played_def setGameStateFromPGN_def page_defs mini_defs trim_def isWhiteSpace_def
      js_includes_def split_beta Let_def)

lemma query_model:
  "chatCompletionsQuery_begin E m g system prompt = Awaiting req pm \<Longrightarrow> request_model req = m"
  "completionsQuery_begin E m g prompt = Awaiting req pm \<Longrightarrow> request_model req = m"
  by (auto simp: chatCompletionsQuery_begin_def completionsQuery_begin_def Let_def
      split: if_splits)

lemma forced_model:
  "requested (makeChatCompletionsMove_begin E env st) = Some req \<Longrightarrow> request_model req = model env"
  "requested (makeCompletionsMove_begin E env st) = Some req \<Longrightarrow> request_model req = model env"
  by (auto simp: makeChatCompletionsMove_begin_def makeCompletionsMove_begin_def
      dest: query_model split: Query.splits)

lemma query_sent:
  assumes "\<not> (game_over E g \<or> in_draw E g \<or> moves E g = [])"
  shows "\<exists>req pm. chatCompletionsQuery_begin E a g system prompt = Awaiting req pm
           \<and> request_model req = a"
    and "\<exists>req pm. completionsQuery_begin E a g prompt = Awaiting req pm
           \<and> request_model req = a"
  using assms by (simp_all add: chatCompletionsQuery_begin_def completionsQuery_begin_def)

lemma forceMove_requests:
  assumes "\<not> (game_over E (instances st (game env)) \<or> in_draw E (instances st (game env))
              \<or> moves E (instances st (game env)) = [])"
  shows "\<exists>req. requested (forceMove E env st) = Some req \<and> request_model req = model env"
proof (cases "useChatCompletions (model env)")
  case True
  from query_sent(1) [OF assms, of "model env" "systemPrompt env" "userPrompt env"]
  obtain req pm where "chatCompletionsQuery_begin E (model env) (instances st (game env))
      (systemPrompt env) (userPrompt env) = Awaiting req pm" "request_model req = model env"
    by blast
  with True show ?thesis by (simp add: forceMove_def makeChatCompletionsMove_begin_def)
next
  case False
  from query_sent(2) [OF assms, of "model env" "userPrompt env"]
  obtain req pm where "completionsQuery_begin E (model env) (instances st (game env))
      (userPrompt env) = Awaiting req pm" "request_model req = model env"
    by blast
  with False show ?thesis by (simp add: forceMove_def makeCompletionsMove_begin_def)
qed

lemma onDrop_requests:
  assumes "fst (move E (ShortMove sourceSquare targetSquare (Some ''q''))
                 (instances st (game env))) \<noteq> None"
    and "\<not> (game_over E (snd (move E (ShortMove sourceSquare targetSquare (Some ''q''))
                 (instances st (game env))))
            \<or> in_draw E (snd (move E (ShortMove sourceSquare targetSquare (Some ''q''))
                 (instances st (game env))))
            \<or> moves E (snd (move E (ShortMove sourceSquare targetSquare (Some ''q''))
                 (instances st (game env)))) = [])"
  shows "fst (onDrop E env sourceSquare targetSquare piece st) = True
       \<and> (\<exists>req. requested (snd (onDrop E env sourceSquare targetSquare piece st)) = Some req
            \<and> request_model req = model env)"
proof -
  let ?d = "move E (ShortMove sourceSquare targetSquare (Some ''q'')) (instances st (game env))"
  let ?st = "setIsAutoPlay False
      (st\<lparr>instances := (instances st)(game env := snd ?d), game := game env\<rparr>)"
  have drop: "onDrop E env sourceSquare targetSquare piece st = (True, forceMove E env ?st)"
    using assms(1) by (simp add: onDrop_def movePiece_def forceMove_def Let_def split_beta)
  have "instances ?st (game env) = snd ?d" by (simp add: setIsAutoPlay_def)
  with assms(2) have "\<exists>req. requested (forceMove E env ?st) = Some req
      \<and> request_model req = model env"
    by (intro forceMove_requests) simp
  with drop show ?thesis by simp
qed

lemma autoPlay_requests:
  assumes "isAutoPlayRef st"
    and "\<not> (game_over E (instances st (game env)) \<or> in_draw E (instances st (game env))
              \<or> moves E (instances st (game env)) = [])"
  shows "\<exists>req. requested (autoPlay_begin E env st) = Some req
       \<and> request_model req =
           (if turn E (instances st (game env)) = White then model env else model2 env)"
proof -
  let ?m = "if turn E (instances st (game env)) = White then model env else model2 env"
  show ?thesis
  proof (cases "useChatCompletions ?m")
    case True
    from query_sent(1) [OF assms(2), of ?m "systemPrompt env" "userPrompt env"]
    obtain req pm where "chatCompletionsQuery_begin E ?m (instances st (game env))
        (systemPrompt env) (userPrompt env) = Awaiting req pm" "request_model req = ?m"
      by blast
    with True assms(1) show ?thesis by (simp add: autoPlay_begin_def Let_def)
  next
    case False
    from query_sent(2) [OF assms(2), of ?m "userPrompt env"]
    obtain req pm where "completionsQuery_begin E ?m (instances st (game env))
        (userPrompt env) = Awaiting req pm" "request_model req = ?m"
      by blast
    with False assms(1) show ?thesis by (simp add: autoPlay_begin_def Let_def)
  qed
qed

text \<open>
  C10. The force-move button and a legal board drop ask a model whenever the position
  is not terminal, and the request they make names the model of the first slot,
  whoever is to move and whatever the second slot holds (the request is the same for
  every value of the second slot). \<^verbatim>\<open>autoPlay\<close>, when the flag is on and the position
  is not terminal, makes a request that names the first slot's model when White is to
  move and the second slot's otherwise. No other function of the component makes a
  request.
\<close>

theorem C10_first_slot_outside_auto_play:
  "(\<forall>req. requested (forceMove E env st) = Some req \<longrightarrow> request_model req = model env)
   \<and> (\<forall>req. requested (snd (onDrop E env sourceSquare targetSquare piece st)) = Some req
         \<longrightarrow> request_model req = model env)
   \<and> requested (forceMove E (env\<lparr>model2 := m\<rparr>) (st\<lparr>model2 := m'\<rparr>))
       = requested (forceMove E env st)
   \<and> requested (snd (onDrop E (env\<lparr>model2 := m\<rparr>) sourceSquare targetSquare piece
        (st\<lparr>model2 := m'\<rparr>)))
       = requested (snd (onDrop E env sourceSquare targetSquare piece st))
   \<and> (\<forall>req. requested (autoPlay_begin E env st) = Some req \<longrightarrow>
         request_model req =
           (if turn E (instances st (game env)) = White then model env else model2 env))
   \<and> (\<not> (game_over E (instances st (game env)) \<or> in_draw E (instances st (game env))
            \<or> moves E (instances st (game env)) = []) \<longrightarrow>
        (\<exists>req. requested (forceMove E env st) = Some req \<and> request_model req = model env))
   \<and> (fst (move E (ShortMove sourceSquare targetSquare (Some ''q''))
              (instances st (game env))) \<noteq> None
        \<and> \<not> (game_over E (snd (move E (ShortMove sourceSquare targetSquare (Some ''q''))
                   (instances st (game env))))
              \<or> in_draw E (snd (move E (ShortMove sourceSquare targetSquare (Some ''q''))
                   (instances st (game env))))
              \<or> moves E (snd (move E (ShortMove sourceSquare targetSquare (Some ''q''))
                   (instances st (game env)))) = []) \<longrightarrow>
        fst (onDrop E env sourceSquare targetSquare piece st) = True
        \<and> (\<exists>req. requested (snd (onDrop E env sourceSquare targetSquare piece st)) = Some req
             \<and> request_model req = model env))
   \<and> (isAutoPlayRef st
        \<and> \<not> (game_over E (instances st (game env)) \<or> in_draw E (instances st (game env))
              \<or> moves E (instances st (game env)) = []) \<longrightarrow>
        (\<exists>req. requested (autoPlay_begin E env st) = Some req
           \<and> request_model req =
               (if turn E (instances st (game env)) = White then model env else model2 env)))"
proof -
  have a: "\<forall>req. requested (forceMove E env st) = Some req \<longrightarrow> request_model req = model env"
    by (auto simp: forceMove_def dest: forced_model split: if_splits)
  have b: "\<forall>req. requested (snd (onDrop E env sourceSquare targetSquare piece st)) = Some req
         \<longrightarrow> request_model req = model env"
    by (auto simp: onDrop_def Let_def split_beta dest: forced_model split: if_splits)
  have c: "requested (forceMove E (env\<lparr>model2 := m\<rparr>) (st\<lparr>model2 := m'\<rparr>))
       = requested (forceMove E env st)"
    by (simp add: forceMove_def makeChatCompletionsMove_begin_def makeCompletionsMove_begin_def
        split: Query.splits)
  have d: "requested (snd (onDrop E (env\<lparr>model2 := m\<rparr>) sourceSquare targetSquare piece
        (st\<lparr>model2 := m'\<rparr>)))
       = requested (snd (onDrop E env sourceSquare targetSquare piece st))"
    by (simp add: onDrop_def movePiece_def setIsAutoPlay_def Let_def split_beta
        makeChatCompletionsMove_begin_def makeCompletionsMove_begin_def split: Query.splits)
  have e: "\<forall>req. requested (autoPlay_begin E env st) = Some req \<longrightarrow>
         request_model req =
           (if turn E (instances st (game env)) = White then model env else model2 env)"
    by (auto simp: autoPlay_begin_def Let_def dest: query_model split: if_splits Query.splits)
  from a b c d e forceMove_requests [of E st env]
    onDrop_requests [of E sourceSquare targetSquare st env piece]
    autoPlay_requests [of st E env]
  show ?thesis by blast
qed

theorem C10_first_slot_outside_auto_play_witness:
  "turn Mini (instances black_to_move (game black_to_move)) = Black
   \<and> model black_to_move = gpt_4 \<and> model2 black_to_move = gpt_3_5_turbo_instruct
   \<and> model black_to_move_swapped = gpt_3_5_turbo_instruct
   \<and> model2 black_to_move_swapped = gpt_4
   \<and> \<not> (game_over Mini (instances black_to_move (game (render black_to_move)))
         \<or> in_draw Mini (instances black_to_move (game (render black_to_move)))
         \<or> moves Mini (instances black_to_move (game (render black_to_move))) = [])
   \<and> map_option request_model (requested (forceMove Mini (render black_to_move) black_to_move))
       = Some gpt_4
   \<and> map_option request_model
       (requested (forceMove Mini (render black_to_move_swapped) black_to_move_swapped))
       = Some gpt_3_5_turbo_instruct
   \<and> fst (onDrop Mini (render ((mount Mini)\<lparr>model := gpt_4\<rparr>)) ''e2'' ''e4'' ''wP''
          ((mount Mini)\<lparr>model := gpt_4\<rparr>)) = True
   \<and> map_option request_model
       (requested (snd (onDrop Mini (render ((mount Mini)\<lparr>model := gpt_4\<rparr>)) ''e2'' ''e4'' ''wP''
          ((mount Mini)\<lparr>model := gpt_4\<rparr>)))) = Some gpt_4
   \<and> map_option request_model
       (requested (snd (onDrop Mini (render ((mount Mini)\<lparr>model2 := gpt_4\<rparr>)) ''e2'' ''e4'' ''wP''
          ((mount Mini)\<lparr>model2 := gpt_4\<rparr>)))) = Some gpt_3_5_turbo_instruct
   \<and> map_option request_model (requested (autoPlay_begin Mini (render black_to_move) black_to_move))
       = Some gpt_3_5_turbo_instruct
   \<and> map_option request_model
       (requested (autoPlay_begin Mini (render black_to_move_swapped) black_to_move_swapped))
       = Some gpt_4"
  using
    C10_first_slot_outside_auto_play [where E = Mini and env = "render black_to_move"
      and st = black_to_move]
    C10_first_slot_outside_auto_play [where E = Mini and env = "render black_to_move_swapped"
      and st = black_to_move_swapped]
    C10_first_slot_outside_auto_play [where E = Mini
      and env = "render ((mount Mini)\<lparr>model := gpt_4\<rparr>)"
      and st = "(mount Mini)\<lparr>model := gpt_4\<rparr>" and sourceSquare = "''e2''"
      and targetSquare = "''e4''" and piece = "''wP''"]
    C10_first_slot_outside_auto_play [where E = Mini
      and env = "render ((mount Mini)\<lparr>model2 := gpt_4\<rparr>)"
      and st = "(mount Mini)\<lparr>model2 := gpt_4\<rparr>" and sourceSquare = "''e2''"
      and targetSquare = "''e4''" and piece = "''wP''"]
  by (simp add: black_to_move_def black_to_move_swapped_def forceMove_def onDrop_def
      movePiece_def autoPlay_begin_def
      makeChatCompletionsMove_begin_def makeCompletionsMove_begin_def
      page_defs query_defs mini_defs DEFAULT_USER_PROMPT_nonempty)


section \<open>Auto-play\<close>

lemma retrying_fields:
  "effectTimeout retrying = None" "timeouts retrying = [render started]"
  "effectTimeout started = Some (0, render started)" "timeouts started = []"
  by (simp_all add: retrying_def started_eq page_defs)

lemma next_timeout_started:
  "next_timeout started = Some (render started, started\<lparr>effectTimeout := None\<rparr>)"
  "next_timeout retrying = Some (render started, retrying\<lparr>timeouts := []\<rparr>)"
  by (simp_all add: next_timeout_def retrying_fields)

lemma first_cycle:
  "cycle Mini (render started) (Resolved (Some ''Qh5'')) (started\<lparr>effectTimeout := None\<rparr>)
     = retrying"
  by (simp add: retrying_def cycle_def autoPlay_begin_def autoPlay_end_def autoPlay_rest_def
      started_eq page_defs query_defs mini_defs DEFAULT_USER_PROMPT_nonempty)

lemma next_cycle:
  "cycle Mini (render started) (Resolved (Some ''Qh5'')) (retrying\<lparr>timeouts := []\<rparr>) = retrying"
  by (simp add: retrying_def cycle_def autoPlay_begin_def autoPlay_end_def autoPlay_rest_def
      started_eq page_defs query_defs mini_defs DEFAULT_USER_PROMPT_nonempty)

lemma cycles_retrying:
  "cycles Mini (replicate n (Resolved (Some ''Qh5''))) retrying = retrying"
  by (induction n) (simp_all add: next_timeout_started next_cycle)

text \<open>
  C4, what the code does. The \<^verbatim>\<open>autoPlay\<close> that a timer runs is the one of the render
  in which auto-play was switched on, and so is the one it schedules next; its
  \<^verbatim>\<open>retryCount\<close> is the value of that render, 0 on a page just mounted. When the
  service answers with a move that is not legal (here \<^verbatim>\<open>Qh5\<close>) every time, every
  cycle sets the counter to 1 and sets the timer again: after any number of such
  cycles auto-play is still on, the counter is 1, the next cycle is pending and no
  status message was written. The counter never reaches 3 and the loop does not halt.
  In general, with any engine, the counter that a cycle without a move writes is
  computed from the counter of the closure, not from the counter of the page.
\<close>

theorem C4_retry_counter_stays_at_one:
  "retryCount (autoPlay_rest E env None st) = (if retryCount env < 3 then retryCount env + 1 else 0)
   \<and> cycles Mini (replicate (Suc n) (Resolved (Some ''Qh5''))) started = retrying
   \<and> isAutoPlay retrying \<and> isAutoPlayRef retrying \<and> retryCount retrying = 1
   \<and> timeouts retrying = [render started] \<and> lastMessage retrying = []"
  by (simp add: next_timeout_started first_cycle cycles_retrying)
    (simp add: retrying_def started_eq autoPlay_rest_def page_defs)

text \<open>
  C7, as amended. Switching auto-play off while a request is in flight does not
  discard its result: when the request resolves, \<^verbatim>\<open>autoPlay\<close> goes on exactly as it
  would with the flag on, and a legal move it found is applied to the game and the
  next cycle is scheduled. The flag is read only when a scheduled \<^verbatim>\<open>autoPlay\<close> wakes
  up: with the flag off it ends at once, with no request, no move and no new timer.
\<close>

theorem C7_flag_read_at_wake_up_only:
  "autoPlay_end E env query (setIsAutoPlay False st)
     = setIsAutoPlay False (autoPlay_end E env query st)
   \<and> (m \<noteq> [] \<longrightarrow>
        instances (autoPlay_end E env (Resolved (Some m)) (setIsAutoPlay False st)) (game env)
          = snd (move E (San m) (instances st (game env)))
        \<and> timeouts (autoPlay_end E env (Resolved (Some m)) (setIsAutoPlay False st))
          = timeouts st @ [env])
   \<and> (\<not> isAutoPlayRef st \<longrightarrow> autoPlay_begin E env st = Finished st)"
  by (auto simp: autoPlay_end_def autoPlay_rest_def autoPlay_begin_def movePiece_def split_beta
      setIsAutoPlay_def Let_def split: Settled.splits option.splits)

theorem C7_flag_read_at_wake_up_only_witness:
  "\<not> isAutoPlayRef (toggleAutoPlay (render in_flight) in_flight)
   \<and> autoPlay_begin Mini (render started) (toggleAutoPlay (render in_flight) in_flight)
       = Finished (toggleAutoPlay (render in_flight) in_flight)
   \<and> instances (autoPlay_end Mini (render started) (Resolved (Some ''e4''))
        (setIsAutoPlay False in_flight)) (game (render started)) = [''e4'']
   \<and> timeouts (autoPlay_end Mini (render started) (Resolved (Some ''e4''))
        (setIsAutoPlay False in_flight)) = [render started]"
  using
    C7_flag_read_at_wake_up_only [where E = Mini and env = "render started"
      and st = "toggleAutoPlay (render in_flight) in_flight" and m = "''e4''"]
    C7_flag_read_at_wake_up_only [where E = Mini and env = "render started"
      and st = in_flight and m = "''e4''"]
  by (simp add: in_flight_eq started_eq page_defs mini_defs)

text \<open>
  The claim C7 as it was stated fails: a request is in flight, auto-play is switched
  off, the service answers \<^verbatim>\<open>e4\<close>; the move is applied to the game and the timer of
  the next cycle is set.
\<close>

theorem C7_counterexample_result_applied:
  "requested (autoPlay_begin Mini (render started) (started\<lparr>effectTimeout := None\<rparr>)) \<noteq> None
   \<and> \<not> isAutoPlay (toggleAutoPlay (render in_flight) in_flight)
   \<and> \<not> isAutoPlayRef (toggleAutoPlay (render in_flight) in_flight)
   \<and> instances (toggleAutoPlay (render in_flight) in_flight) 0 = []
   \<and> instances (autoPlay_end Mini (render started)
        (completionsQuery_end [''e4'', ''d4''] (Resolved (Some ''e4'')))
        (toggleAutoPlay (render in_flight) in_flight)) 0 = [''e4'']
   \<and> timeouts (autoPlay_end Mini (render started)
        (completionsQuery_end [''e4'', ''d4''] (Resolved (Some ''e4'')))
        (toggleAutoPlay (render in_flight) in_flight)) = [render started]"
  by (simp add: in_flight_eq autoPlay_begin_def autoPlay_end_def autoPlay_rest_def movePiece_def
      started_eq page_defs query_defs mini_defs DEFAULT_USER_PROMPT_nonempty)

end
